theory Spec2Isabelle
  imports Complex_Main "HOL-Library.Sublist"
begin

section \<open>Python values\<close>

text \<open>
  The program is dynamically typed: the entries of a test case's \<open>test_data\<close> dictionary
  and the fields of a result dictionary hold strings, floats or \<open>None\<close>. A float is
  modelled by the real number it denotes (finite binary64 values only; infinities and NaN
  are outside the model).
\<close>

datatype pyval = PNone | PStr string | PNum real

text \<open>A Python dictionary with string keys.\<close>

type_synonym 'v dict = "string \<rightharpoonup> 'v"

text \<open>\<^verbatim>\<open>d.get(k, default)\<close>\<close>

definition dict_get :: "'v dict \<Rightarrow> string \<Rightarrow> 'v \<Rightarrow> 'v" where
  "dict_get d k dflt = (case d k of None \<Rightarrow> dflt | Some v \<Rightarrow> v)"

text \<open>
  An API specification is a dictionary; the program reads its \<open>name\<close> and \<open>type\<close>
  entries only, which are strings in every specification of the repository.
\<close>

type_synonym api_spec = "string dict"

section \<open>core/ai\_engine.py: test cases and the template generator\<close>

record TestCase =
  name :: string
  description :: string
  test_type :: string
  priority :: string
  steps :: "string list"
  expected_result :: string
  api_endpoint :: "string option"
  test_data :: "pyval dict option"

text \<open>
  \<^verbatim>\<open>AITestEngine._generate_mock_test_cases\<close> (an Isabelle name cannot start with an
  underscore). The f-strings are concatenations.
\<close>

definition generate_mock_test_cases :: "api_spec \<Rightarrow> TestCase list" where
  "generate_mock_test_cases api_spec =
    (let api_name = dict_get api_spec ''name'' ''Unknown API'';
         api_type = dict_get api_spec ''type'' ''unknown''
     in [\<lparr>name = api_name @ '' Happy Path Test'',
          description = ''Test successful operation of '' @ api_name,
          test_type = ''functional'',
          priority = ''high'',
          steps = [''Send valid request'', ''Verify response''],
          expected_result = ''Successful response with expected data'',
          api_endpoint = Some ''/api/test'',
          test_data = Some [''test'' \<mapsto> PStr ''data'']\<rparr>,
         \<lparr>name = api_name @ '' Error Handling Test'',
          description = ''Test error handling for '' @ api_name,
          test_type = ''functional'',
          priority = ''medium'',
          steps = [''Send invalid request'', ''Verify error response''],
          expected_result = ''Proper error message returned'',
          api_endpoint = Some ''/api/test'',
          test_data = Some [''invalid'' \<mapsto> PStr ''data'']\<rparr>,
         \<lparr>name = api_name @ '' Security Test'',
          description = ''Test security of '' @ api_name,
          test_type = ''security'',
          priority = ''high'',
          steps = [''Send malicious payload'', ''Verify rejection''],
          expected_result = ''Request blocked or sanitized'',
          api_endpoint = Some ''/api/test'',
          test_data = Some [''malicious'' \<mapsto> PStr ''payload'']\<rparr>])"

section \<open>Properties of the template generator\<close>

text \<open>
  Claim C3. For every API specification the template generator returns exactly three test
  cases, in the order happy path, error handling, security; their names are the
  specification's \<open>name\<close> entry (\<open>Unknown API\<close> when there is none) followed by
  \<open>Happy Path Test\<close>, \<open>Error Handling Test\<close> and \<open>Security Test\<close>; their
  priorities are high, medium, high. The result is a function of the specification alone
  (the generator reads neither clock nor random source), and indeed of its \<open>name\<close> entry
  alone, so two invocations on the same specification agree.
\<close>

theorem generate_mock_test_cases_three:
  "length (generate_mock_test_cases api_spec) = 3
   \<and> map name (generate_mock_test_cases api_spec) =
       [dict_get api_spec ''name'' ''Unknown API'' @ '' Happy Path Test'',
        dict_get api_spec ''name'' ''Unknown API'' @ '' Error Handling Test'',
        dict_get api_spec ''name'' ''Unknown API'' @ '' Security Test'']
   \<and> map priority (generate_mock_test_cases api_spec) = [''high'', ''medium'', ''high'']
   \<and> map test_type (generate_mock_test_cases api_spec) =
       [''functional'', ''functional'', ''security'']
   \<and> generate_mock_test_cases api_spec =
       generate_mock_test_cases [''name'' \<mapsto> dict_get api_spec ''name'' ''Unknown API'']"
  by (simp add: generate_mock_test_cases_def dict_get_def Let_def)

end
